theory Spec2Isabelle
  imports Complex_Main "HOL-Library.AList"
begin

section \<open>Values, documents and collections\<close>

text \<open>
  The recipe model of \<^verbatim>\<open>src/src/models/recipe.model.ts\<close> is a schema
  (\<^verbatim>\<open>RecipeFields\<close>), a handful of document methods and one aggregation per
  static. Plain objects that the methods build and cut down with \<^verbatim>\<open>delete\<close> are
  association lists from field names to values; typed documents are records.
  An ObjectId is its hexadecimal string. A JavaScript number is modelled as an exact
  rational. A string is the list of the bytes of its UTF-8 encoding.
\<close>

type_synonym oid = string

datatype json =
    JNull
  | JBool bool
  | JNum rat
  | JStr string
  | JId oid
  | JArr "json list"
  | JObj "(string \<times> json) list"

type_synonym obj = "(string \<times> json) list"

text \<open>\<^verbatim>\<open>k in o\<close>, \<^verbatim>\<open>o[k]\<close>, \<^verbatim>\<open>delete o[k]\<close> and \<^verbatim>\<open>{...o, k: v}\<close>.\<close>

definition has_field :: "obj \<Rightarrow> string \<Rightarrow> bool" where
  "has_field ob k = (k \<in> fst ` set ob)"

definition get_field :: "obj \<Rightarrow> string \<Rightarrow> json option" where
  "get_field ob k = map_of ob k"

definition delete_field :: "string \<Rightarrow> obj \<Rightarrow> obj" where
  "delete_field k ob = AList.delete k ob"

definition set_field :: "string \<Rightarrow> json \<Rightarrow> obj \<Rightarrow> obj" where
  "set_field k v ob = AList.update k v ob"

text \<open>A field that is \<^verbatim>\<open>undefined\<close> is left out of a serialised object.\<close>

definition opt_field :: "string \<Rightarrow> ('a \<Rightarrow> json) \<Rightarrow> 'a option \<Rightarrow> obj" where
  "opt_field k f v = (case v of None \<Rightarrow> [] | Some x \<Rightarrow> [(k, f x)])"

text \<open>A value that is missing inside an aggregation comes out as \<^verbatim>\<open>null\<close>.\<close>

definition or_null :: "('a \<Rightarrow> json) \<Rightarrow> 'a option \<Rightarrow> json" where
  "or_null f v = (case v of None \<Rightarrow> JNull | Some x \<Rightarrow> f x)"

text \<open>
  An image (\<^verbatim>\<open>image.model\<close>, as \<^verbatim>\<open>ImageController.uploadImage\<close> creates it)
  and a rating record (the two fields the rollup of \<^verbatim>\<open>updateRating\<close> reads).
\<close>

record image =
  image_id :: oid
  publicId :: string
  url :: string
  imgType :: string

record rating_doc =
  recipeId :: oid
  rateValue :: rat

record ingredient_doc =
  quantity :: "string option"
  ingredient :: "string option"

text \<open>
  \<^verbatim>\<open>IRecipe\<close>. The banners of a document are \<^verbatim>\<open>Array<string|IImage>\<close>: each
  one a reference or, once the autopopulate plugin has resolved it, an image
  (\<open>banner recipe\<close>). The collection holds references only (\<open>oid recipe\<close>); a
  document all of whose banners are resolved is an \<open>image recipe\<close>.
  \<^verbatim>\<open>rating\<close> is a plain object: its schema type is an object literal, and its
  default (\<^verbatim>\<open>avgRating\<close>) is not of the declared shape. \<^verbatim>\<open>status\<close> and
  \<^verbatim>\<open>score\<close> are read by the code but are no paths of \<^verbatim>\<open>RecipeFields\<close>.
\<close>

datatype banner = Ref oid | Populated image

record 'b recipe =
  recipe_id :: oid
  name :: "string option"
  description :: "string option"
  status :: "bool option"
  category :: "string option"
  createdBy :: "oid option"
  servings :: "rat option"
  time :: "rat option"
  tags :: "string list"
  banners :: "'b list"
  ingredients :: "ingredient_doc list"
  methods :: "string list"
  rating :: obj
  ratings :: "oid list"
  score :: "rat option"
  createdAt :: nat
  updatedAt :: nat

text \<open>The data store: the three collections in their natural order, and the clock.\<close>

record world =
  recipeColl :: "oid recipe list"
  ratingColl :: "rating_doc list"
  imageColl :: "image list"
  now :: nat

text \<open>
  The same recipe with other banners. A document over a stored record has the
  record's references as its banners, until something populates them: it is what
  \<^verbatim>\<open>create\<close> resolves with, and what a query with \<^verbatim>\<open>autopopulate: false\<close>
  returns. A populated document has images in their place.
\<close>

definition withBanners :: "'b list \<Rightarrow> 'a recipe \<Rightarrow> 'b recipe" where
  "withBanners bs r =
     \<lparr>recipe_id = recipe_id r,
      name = name r,
      description = description r,
      status = status r,
      category = category r,
      createdBy = createdBy r,
      servings = servings r,
      time = time r,
      tags = tags r,
      banners = bs,
      ingredients = ingredients r,
      methods = methods r,
      rating = rating r,
      ratings = ratings r,
      score = score r,
      createdAt = createdAt r,
      updatedAt = updatedAt r\<rparr>"

definition rawDocument :: "oid recipe \<Rightarrow> banner recipe" where
  "rawDocument r = withBanners (map Ref (banners r)) r"

definition asDocument :: "image recipe \<Rightarrow> banner recipe" where
  "asDocument r = withBanners (map Populated (banners r)) r"

section \<open>getCategories\<close>

text \<open>
  \<^verbatim>\<open>Recipe.aggregate([{$match: {status: true, category: {$ne: null}}},
    {$group: {_id: "$category", total: {$sum: 1},
              image_url: {$last: {$arrayElemAt: ["$banners", 0]}}}}])\<close>
  The \<^verbatim>\<open>$limit\<close> stage is commented out. A group is its key, its count and the
  value of the last member; the groups are listed in the order their keys first occur.
\<close>

definition matchStage :: "oid recipe \<Rightarrow> bool" where
  "matchStage r = (status r = Some True \<and> category r \<noteq> None)"

definition arrayElemAt :: "'a list \<Rightarrow> nat \<Rightarrow> 'a option" where
  "arrayElemAt xs i = (if i < length xs then Some (xs ! i) else None)"

type_synonym category_group = "string option \<times> nat \<times> oid option"

fun groupAdd :: "string option \<Rightarrow> oid option \<Rightarrow> category_group list \<Rightarrow> category_group list" where
  "groupAdd k img [] = [(k, 1, img)]"
| "groupAdd k img ((k', n, i) # gs) =
     (if k' = k then (k', n + 1, img) # gs else (k', n, i) # groupAdd k img gs)"

definition groupStage :: "oid recipe list \<Rightarrow> category_group list" where
  "groupStage rs = foldl (\<lambda>gs r. groupAdd (category r) (arrayElemAt (banners r) 0) gs) [] rs"

definition categoryEntry :: "category_group \<Rightarrow> obj" where
  "categoryEntry g =
     (case g of (k, n, img) \<Rightarrow>
        [(''_id'', or_null JStr k), (''total'', JNum (of_nat n)), (''image_url'', or_null JId img)])"

definition getCategories :: "nat option \<Rightarrow> world \<Rightarrow> obj list" where
  "getCategories limit w = map categoryEntry (groupStage (filter matchStage (recipeColl w)))"

text \<open>The categories of the publicly visible recipes, and the members of one of them.\<close>

definition publicCategories :: "world \<Rightarrow> string set" where
  "publicCategories w =
     set (List.map_filter category (filter (\<lambda>r. status r = Some True) (recipeColl w)))"

definition publicMembers :: "world \<Rightarrow> string \<Rightarrow> oid recipe list" where
  "publicMembers w c = filter (\<lambda>r. status r = Some True \<and> category r = Some c) (recipeColl w)"

section \<open>Serialisation and the view projections\<close>

text \<open>
  The current user, as far as the recipe methods use it: \<^verbatim>\<open>user.id\<close> and
  \<^verbatim>\<open>user.didSaveRecipe(recipe)\<close>.
\<close>

record user =
  user_id :: oid
  savedRecipes :: "oid list"

text \<open>
  Modelled from the spec: \<^verbatim>\<open>user.model\<close> is not among the sources;
  \<^verbatim>\<open>didSaveRecipe\<close> is the membership check on the user's saved list.
\<close>

definition didSaveRecipe :: "user \<Rightarrow> 'b recipe \<Rightarrow> bool" where
  "didSaveRecipe u r = (recipe_id r \<in> set (savedRecipes u))"

text \<open>
  Modelled from the spec: \<^verbatim>\<open>image.model\<close> is not among the sources;
  \<^verbatim>\<open>toEditObject\<close> projects an image to \<^verbatim>\<open>{id, url}\<close>.
\<close>

definition toEditObject :: "image \<Rightarrow> obj" where
  "toEditObject i = [(''id'', JStr (image_id i)), (''url'', JStr (url i))]"

text \<open>
  \<^verbatim>\<open>RecipeSchema.virtual('image_url')\<close>: empty without banners, else
  \<^verbatim>\<open>this.banners[0].url\<close>, which is the url of an image and \<^verbatim>\<open>undefined\<close>
  (here \<open>None\<close>) on a reference.
\<close>

definition urlOf :: "banner \<Rightarrow> string option" where
  "urlOf b = (case b of Ref i \<Rightarrow> None | Populated img \<Rightarrow> Some (url img))"

definition image_url :: "banner recipe \<Rightarrow> string option" where
  "image_url r = (if length (banners r) = 0 then Some [] else urlOf (banners r ! 0))"

text \<open>
  The fields of a document as \<^verbatim>\<open>toJSON\<close> and \<^verbatim>\<open>toObject\<close> clone them, and
  the virtuals that \<^verbatim>\<open>virtuals: true\<close> adds: \<^verbatim>\<open>image_url\<close>, left out when
  it is \<^verbatim>\<open>undefined\<close>, and the \<^verbatim>\<open>id\<close> that every schema has. How a populated
  banner serialises is the image model's business: \<open>imgJSON\<close>. The keys are listed in
  the order of the schema; the mapper's own order is not modelled, and no statement
  below depends on it.
\<close>

definition bannerJSON :: "(image \<Rightarrow> json) \<Rightarrow> banner \<Rightarrow> json" where
  "bannerJSON imgJSON b = (case b of Ref i \<Rightarrow> JId i | Populated img \<Rightarrow> imgJSON img)"

definition ingredientJSON :: "ingredient_doc \<Rightarrow> json" where
  "ingredientJSON g = JObj (opt_field ''quantity'' JStr (quantity g) @ opt_field ''ingredient'' JStr (ingredient g))"

definition docFields :: "(image \<Rightarrow> json) \<Rightarrow> banner recipe \<Rightarrow> obj" where
  "docFields imgJSON r =
     [(''_id'', JId (recipe_id r))] @
     opt_field ''name'' JStr (name r) @
     opt_field ''description'' JStr (description r) @
     opt_field ''status'' JBool (status r) @
     opt_field ''category'' JStr (category r) @
     opt_field ''createdBy'' JId (createdBy r) @
     opt_field ''servings'' JNum (servings r) @
     opt_field ''time'' JNum (time r) @
     [(''tags'', JArr (map JStr (tags r))),
      (''banners'', JArr (map (bannerJSON imgJSON) (banners r))),
      (''ingredients'', JArr (map ingredientJSON (ingredients r))),
      (''methods'', JArr (map JStr (methods r))),
      (''rating'', JObj (rating r)),
      (''ratings'', JArr (map JId (ratings r)))] @
     opt_field ''score'' JNum (score r) @
     [(''createdAt'', JNum (of_nat (createdAt r))),
      (''updatedAt'', JNum (of_nat (updatedAt r)))]"

definition virtuals :: "banner recipe \<Rightarrow> obj" where
  "virtuals r = opt_field ''image_url'' JStr (image_url r) @ [(''id'', JStr (recipe_id r))]"

text \<open>The \<^verbatim>\<open>transform\<close> of the schema options, the same body for both.\<close>

definition transform :: "obj \<Rightarrow> obj" where
  "transform ret = delete_field ''updatedAt'' (delete_field ''ratings'' (delete_field ''_id'' ret))"

definition toJSON :: "(image \<Rightarrow> json) \<Rightarrow> banner recipe \<Rightarrow> obj" where
  "toJSON imgJSON r = transform (docFields imgJSON r @ virtuals r)"

definition toObject :: "(image \<Rightarrow> json) \<Rightarrow> banner recipe \<Rightarrow> obj" where
  "toObject imgJSON r = transform (docFields imgJSON r @ virtuals r)"

definition isCreatedBy :: "'b recipe \<Rightarrow> user \<Rightarrow> bool" where
  "isCreatedBy r u = (createdBy r = Some (user_id u))"

definition toJSONFor :: "(image \<Rightarrow> json) \<Rightarrow> banner recipe \<Rightarrow> user \<Rightarrow> obj" where
  "toJSONFor imgJSON r u =
     set_field ''createdByUser'' (JBool (isCreatedBy r u))
       (set_field ''savedByUser'' (JBool (didSaveRecipe u r)) (toJSON imgJSON r))"

text \<open>The fields each projection deletes, in the order of its \<^verbatim>\<open>delete\<close> statements.\<close>

definition thumbnailDeletes :: "string list" where
  "thumbnailDeletes =
     [''createdBy'', ''banners'', ''createdAt'', ''ingredients'', ''methods'', ''servings'',
      ''description'', ''category'', ''tags'', ''time'', ''status'']"

definition searchResultDeletes :: "string list" where
  "searchResultDeletes =
     [''banners'', ''createdAt'', ''createdBy'', ''ingredients'', ''methods'', ''servings'',
      ''description'', ''category'', ''tags'', ''time'', ''status'', ''score'']"

definition toThumbnailFor :: "(image \<Rightarrow> json) \<Rightarrow> banner recipe \<Rightarrow> user option \<Rightarrow> obj" where
  "toThumbnailFor imgJSON r u =
     (let recipe = (case u of Some usr \<Rightarrow> toJSONFor imgJSON r usr | None \<Rightarrow> toJSON imgJSON r)
      in fold delete_field thumbnailDeletes recipe)"

definition toSearchResultFor :: "(image \<Rightarrow> json) \<Rightarrow> banner recipe \<Rightarrow> user option \<Rightarrow> obj" where
  "toSearchResultFor imgJSON r u =
     (let recipe = (case u of Some usr \<Rightarrow> toJSONFor imgJSON r usr | None \<Rightarrow> toJSON imgJSON r)
      in fold delete_field searchResultDeletes recipe)"

text \<open>
  \<^verbatim>\<open>toEditObj\<close> maps \<^verbatim>\<open>(x: IImage) => x.toEditObject()\<close> over the banners: it
  is a method of documents whose banners are images.
\<close>

definition toEditObj :: "(image \<Rightarrow> json) \<Rightarrow> image recipe \<Rightarrow> obj" where
  "toEditObj imgJSON r =
     (let recipe = set_field ''banners'' (JArr (map (\<lambda>x. JObj (toEditObject x)) (banners r)))
                     (toObject imgJSON (asDocument r))
      in delete_field ''createdAt'' (delete_field ''createdBy'' recipe))"

section \<open>Schema: setters, defaults and validation\<close>

text \<open>
  The \<^verbatim>\<open>trim\<close> setter of a string path is \<^verbatim>\<open>String.prototype.trim\<close>: it removes
  the white space and the line terminators of the language at both ends. These are,
  in UTF-8: the tab, line feed, vertical tab, form feed, carriage return and space;
  U+00A0; U+1680; U+2000 to U+200A; U+2028, U+2029 and U+202F; U+205F; U+3000; and
  U+FEFF.
\<close>

definition whiteSpace :: "string list" where
  "whiteSpace =
     [[CHR 0x09], [CHR 0x0A], [CHR 0x0B], [CHR 0x0C], [CHR 0x0D], [CHR 0x20],
      [CHR 0xC2, CHR 0xA0],
      [CHR 0xE1, CHR 0x9A, CHR 0x80],
      [CHR 0xE2, CHR 0x80, CHR 0x80], [CHR 0xE2, CHR 0x80, CHR 0x81],
      [CHR 0xE2, CHR 0x80, CHR 0x82], [CHR 0xE2, CHR 0x80, CHR 0x83],
      [CHR 0xE2, CHR 0x80, CHR 0x84], [CHR 0xE2, CHR 0x80, CHR 0x85],
      [CHR 0xE2, CHR 0x80, CHR 0x86], [CHR 0xE2, CHR 0x80, CHR 0x87],
      [CHR 0xE2, CHR 0x80, CHR 0x88], [CHR 0xE2, CHR 0x80, CHR 0x89],
      [CHR 0xE2, CHR 0x80, CHR 0x8A],
      [CHR 0xE2, CHR 0x80, CHR 0xA8], [CHR 0xE2, CHR 0x80, CHR 0xA9],
      [CHR 0xE2, CHR 0x80, CHR 0xAF],
      [CHR 0xE2, CHR 0x81, CHR 0x9F],
      [CHR 0xE3, CHR 0x80, CHR 0x80],
      [CHR 0xEF, CHR 0xBB, CHR 0xBF]]"

text \<open>The length of the sequence of \<open>seqs\<close> that the string starts with, 0 if none.\<close>

definition leading :: "string list \<Rightarrow> string \<Rightarrow> nat" where
  "leading seqs s =
     (case find (\<lambda>q. q \<noteq> [] \<and> take (length q) s = q) seqs of
        None \<Rightarrow> 0
      | Some q \<Rightarrow> length q)"

function strip :: "string list \<Rightarrow> string \<Rightarrow> string" where
  "strip seqs s = (if leading seqs s = 0 then s else strip seqs (drop (leading seqs s) s))"
  by pat_completeness auto
termination
proof (relation "measure (\<lambda>(seqs, s). length s)")
  show "wf (measure (\<lambda>(seqs, s). length s))" by simp
next
  fix seqs :: "string list" and s :: string
  assume "leading seqs s \<noteq> 0"
  then obtain q where "q \<noteq> []" and "take (length q) s = q"
    by (auto simp: leading_def find_Some_iff split: option.splits)
  then have "s \<noteq> []" by auto
  with \<open>leading seqs s \<noteq> 0\<close>
  show "((seqs, drop (leading seqs s) s), (seqs, s)) \<in> measure (\<lambda>(seqs, s). length s)"
    by simp
qed

declare strip.simps [simp del]

definition trimStart :: "string \<Rightarrow> string" where
  "trimStart s = strip whiteSpace s"

definition trimEnd :: "string \<Rightarrow> string" where
  "trimEnd s = rev (strip (map rev whiteSpace) (rev s))"

definition trim :: "string \<Rightarrow> string" where
  "trim s = trimEnd (trimStart s)"

text \<open>
  The \<^verbatim>\<open>lowercase\<close> setter, for the letters A to Z. The case mapping of the letters
  outside ASCII is not modelled: it changes neither whether a string is empty after
  trimming nor anything a statement below says of a stored category.
\<close>

definition toLower :: "char \<Rightarrow> char" where
  "toLower c =
     (case map_of (zip ''ABCDEFGHIJKLMNOPQRSTUVWXYZ'' ''abcdefghijklmnopqrstuvwxyz'') c of
        None \<Rightarrow> c
      | Some l \<Rightarrow> l)"

definition toLowerCase :: "string \<Rightarrow> string" where
  "toLowerCase s = map toLower s"

text \<open>
  What a validator reports: the path and the kind of check that failed. A failed
  validation rejects with \<^verbatim>\<open>ValidationError\<close>; the other errors are the ones the
  methods below can end in.
\<close>

datatype validator_kind = IsRequired | BelowMin | AboveMax | UserDefined string

type_synonym validation_errors = "(string \<times> validator_kind) list"

datatype error =
    ValidationError validation_errors
  | TypeError
  | DuplicateKey
  | DocumentNotFound

text \<open>
  The checks the object-document mapper runs for a path, by the type of the path. The
  first failing validator of a path is the one reported.
  \<^item> A string path: \<^verbatim>\<open>required\<close> fails on a missing or empty string.
  \<^item> A number path: \<^verbatim>\<open>required\<close>, then \<^verbatim>\<open>min\<close> and \<^verbatim>\<open>max\<close>.
  \<^item> An array path: a missing array is the empty array. \<^verbatim>\<open>required\<close> fails on the
    empty array in the mapper's versions before 5 and passes from 5 on; the sources do
    not fix the version, so this is the parameter \<open>rejectEmpty\<close>. The options
    \<^verbatim>\<open>minlength\<close> and \<^verbatim>\<open>maxlength\<close> are validators of string paths; an array path
    takes them and runs no check for them. A validator added with
    \<^verbatim>\<open>path(...).validate\<close> runs on every array.
\<close>

definition stringPath :: "string \<Rightarrow> bool \<Rightarrow> string option \<Rightarrow> validation_errors" where
  "stringPath path req v =
     (if req \<and> (v = None \<or> v = Some []) then [(path, IsRequired)] else [])"

definition numberPath :: "string \<Rightarrow> bool \<Rightarrow> rat \<Rightarrow> rat \<Rightarrow> rat option \<Rightarrow> validation_errors" where
  "numberPath path req lo hi v =
     (case v of
        None \<Rightarrow> if req then [(path, IsRequired)] else []
      | Some n \<Rightarrow>
          if n < lo then [(path, BelowMin)]
          else if hi < n then [(path, AboveMax)]
          else [])"

definition idPath :: "string \<Rightarrow> bool \<Rightarrow> oid option \<Rightarrow> validation_errors" where
  "idPath path req v = (if req \<and> v = None then [(path, IsRequired)] else [])"

definition arrayPath ::
  "bool \<Rightarrow> string \<Rightarrow> bool \<Rightarrow> nat option \<Rightarrow> nat option \<Rightarrow> (('a list \<Rightarrow> bool) \<times> string) option
    \<Rightarrow> 'a list \<Rightarrow> validation_errors" where
  "arrayPath rejectEmpty path req minlength maxlength custom xs =
     (if req \<and> rejectEmpty \<and> xs = [] then [(path, IsRequired)]
      else case custom of
        None \<Rightarrow> []
      | Some (validator, msg) \<Rightarrow> if validator xs then [] else [(path, UserDefined msg)])"

text \<open>
  Modelled from the spec: \<^verbatim>\<open>image.model\<close> is not among the sources;
  \<^verbatim>\<open>Image.checkImagesExist(refs)\<close> tells whether all the references resolve to
  stored images.
\<close>

definition checkImagesExist :: "image list \<Rightarrow> oid list \<Rightarrow> bool" where
  "checkImagesExist imgs refs = list_all (\<lambda>ref. ref \<in> image_id ` set imgs) refs"

text \<open>The elements of \<^verbatim>\<open>ingredients\<close>: two required, trimmed strings each.\<close>

fun showNat :: "nat \<Rightarrow> string" where
  "showNat n = (if n < 10 then [char_of (48 + n)] else showNat (n div 10) @ [char_of (48 + n mod 10)])"

declare showNat.simps [simp del]

definition ingredientPath :: "nat \<Rightarrow> ingredient_doc \<Rightarrow> validation_errors" where
  "ingredientPath i g =
     stringPath (''ingredients.'' @ showNat i @ ''.quantity'') True (quantity g) @
     stringPath (''ingredients.'' @ showNat i @ ''.ingredient'') True (ingredient g)"

definition ingredientsPath :: "ingredient_doc list \<Rightarrow> validation_errors" where
  "ingredientsPath gs = concat (map (\<lambda>(i, g). ingredientPath i g) (enumerate 0 gs))"

text \<open>\<^verbatim>\<open>RecipeFields\<close> with the validator of \<^verbatim>\<open>RecipeSchema.path('banners')\<close>.\<close>

definition validate :: "bool \<Rightarrow> image list \<Rightarrow> oid recipe \<Rightarrow> validation_errors" where
  "validate rejectEmpty imgs r =
     stringPath ''name'' True (name r) @
     stringPath ''category'' True (category r) @
     stringPath ''description'' False (description r) @
     numberPath ''servings'' True 1 16 (servings r) @
     numberPath ''time'' False 1 200 (time r) @
     idPath ''createdBy'' True (createdBy r) @
     arrayPath rejectEmpty ''banners'' True (Some 1) (Some 4)
       (Some (checkImagesExist imgs, ''Image not exists'')) (banners r) @
     ingredientsPath (ingredients r) @
     arrayPath rejectEmpty ''methods'' True None None None (methods r)"

text \<open>The default of the \<^verbatim>\<open>rating\<close> path, as the schema writes it.\<close>

definition defaultRating :: obj where
  "defaultRating = [(''avgRating'', JNum 0), (''total'', JNum 0)]"

section \<open>Creating, saving and finding recipes\<close>

text \<open>
  The fields handed to \<^verbatim>\<open>Recipe.create\<close>: one optional entry per path of
  \<^verbatim>\<open>RecipeFields\<close>.
\<close>

record recipe_input =
  in_name :: "string option"
  in_category :: "string option"
  in_description :: "string option"
  in_servings :: "rat option"
  in_time :: "rat option"
  in_createdBy :: "oid option"
  in_banners :: "oid list option"
  in_ingredients :: "ingredient_doc list option"
  in_methods :: "string list option"
  in_rating :: "obj option"
  in_ratings :: "oid list option"
  in_tags :: "string list option"

definition or_empty :: "'a list option \<Rightarrow> 'a list" where
  "or_empty v = (case v of None \<Rightarrow> [] | Some xs \<Rightarrow> xs)"

definition trimIngredient :: "ingredient_doc \<Rightarrow> ingredient_doc" where
  "trimIngredient g =
     \<lparr>quantity = map_option trim (quantity g), ingredient = map_option trim (ingredient g)\<rparr>"

text \<open>
  The new document: the setters applied, the defaults filled in, the timestamps of
  \<^verbatim>\<open>timestamps: true\<close> set to the time of the first save. \<^verbatim>\<open>status\<close> is no
  path of the schema, so a new document has none. The \<^verbatim>\<open>trim\<close> and
  \<^verbatim>\<open>lowercase\<close> of \<^verbatim>\<open>tags\<close> are options of the array path, not setters of
  its strings. A \<^verbatim>\<open>rating\<close> in the input is taken as it is.
\<close>

definition newRecipe :: "nat \<Rightarrow> oid \<Rightarrow> recipe_input \<Rightarrow> oid recipe" where
  "newRecipe t newId inp =
     \<lparr>recipe_id = newId,
      name = map_option trim (in_name inp),
      description = map_option trim (in_description inp),
      status = None,
      category = map_option (\<lambda>c. trim (toLowerCase c)) (in_category inp),
      createdBy = in_createdBy inp,
      servings = in_servings inp,
      time = in_time inp,
      tags = or_empty (in_tags inp),
      banners = or_empty (in_banners inp),
      ingredients = map trimIngredient (or_empty (in_ingredients inp)),
      methods = or_empty (in_methods inp),
      rating = (case in_rating inp of None \<Rightarrow> defaultRating | Some ob \<Rightarrow> ob),
      ratings = or_empty (in_ratings inp),
      score = None,
      createdAt = t,
      updatedAt = t\<rparr>"

text \<open>
  \<^verbatim>\<open>Recipe.create(fields)\<close>: validate, then insert under the fresh id \<open>newId\<close>.
  The result and the store afterwards.
\<close>

definition create :: "bool \<Rightarrow> world \<Rightarrow> oid \<Rightarrow> recipe_input \<Rightarrow> (error + oid recipe) \<times> world" where
  "create rejectEmpty w newId inp =
     (let d = newRecipe (now w) newId inp in
      case validate rejectEmpty (imageColl w) d of
        [] \<Rightarrow>
          if newId \<in> recipe_id ` set (recipeColl w) then (Inl DuplicateKey, w)
          else (Inr d, w\<lparr>recipeColl := recipeColl w @ [d]\<rparr>)
      | e # es \<Rightarrow> (Inl (ValidationError (e # es)), w))"

text \<open>
  A document method runs on the store and the document it is called on
  (\<^verbatim>\<open>this\<close>). \<^verbatim>\<open>save\<close> validates the document and writes it over the stored one
  of the same id; it rejects when validation fails or no such document is stored.
\<close>

record session =
  db :: world
  doc :: "oid recipe"

definition save :: "bool \<Rightarrow> session \<Rightarrow> error option \<times> session" where
  "save rejectEmpty s =
     (case validate rejectEmpty (imageColl (db s)) (doc s) of
        [] \<Rightarrow>
          if recipe_id (doc s) \<in> recipe_id ` set (recipeColl (db s))
          then (let d = (doc s)\<lparr>updatedAt := now (db s)\<rparr> in
                (None,
                 \<lparr>db = (db s)\<lparr>recipeColl :=
                         map (\<lambda>x. if recipe_id x = recipe_id d then d else x) (recipeColl (db s))\<rparr>,
                  doc = d\<rparr>))
          else (Some DocumentNotFound, s)
      | e # es \<Rightarrow> (Some (ValidationError (e # es)), s))"

text \<open>
  The autopopulate plugin resolves the banner references of a document that a query
  returns; a reference with no image is dropped.
\<close>

definition findImage :: "image list \<Rightarrow> oid \<Rightarrow> image option" where
  "findImage imgs ref = find (\<lambda>i. image_id i = ref) imgs"

definition populate :: "image list \<Rightarrow> oid recipe \<Rightarrow> image recipe" where
  "populate imgs r =
     \<lparr>recipe_id = recipe_id r,
      name = name r,
      description = description r,
      status = status r,
      category = category r,
      createdBy = createdBy r,
      servings = servings r,
      time = time r,
      tags = tags r,
      banners = List.map_filter (findImage imgs) (banners r),
      ingredients = ingredients r,
      methods = methods r,
      rating = rating r,
      ratings = ratings r,
      score = score r,
      createdAt = createdAt r,
      updatedAt = updatedAt r\<rparr>"

definition findById :: "world \<Rightarrow> oid \<Rightarrow> image recipe option" where
  "findById w i = map_option (populate (imageColl w)) (find (\<lambda>r. recipe_id r = i) (recipeColl w))"

section \<open>Ratings\<close>

text \<open>
  \<^verbatim>\<open>Rating.aggregate([{$match: {recipeId: this._id}},
    {$group: {_id: '$recipeId', avg: {$avg: '$rateValue'}, total: {$sum: 1}}}])\<close>:
  one group when a rating matches, none otherwise.
\<close>

definition ratingRollup :: "rating_doc list \<Rightarrow> oid \<Rightarrow> obj list" where
  "ratingRollup rs rid =
     (let ms = filter (\<lambda>x. recipeId x = rid) rs in
      if ms = [] then []
      else [[(''_id'', JId rid),
             (''avg'', JNum (sum_list (map rateValue ms) / of_nat (length ms))),
             (''total'', JNum (of_nat (length ms)))]])"

text \<open>
  \<^verbatim>\<open>updateRating\<close>: \<^verbatim>\<open>delete results[0]._id\<close> throws a TypeError when the
  aggregation has no result; otherwise the group becomes \<^verbatim>\<open>this.rating\<close> and the
  document is saved.
\<close>

definition updateRating :: "bool \<Rightarrow> session \<Rightarrow> error option \<times> session" where
  "updateRating rejectEmpty s =
     (case ratingRollup (ratingColl (db s)) (recipe_id (doc s)) of
        [] \<Rightarrow> (Some TypeError, s)
      | res # _ \<Rightarrow> save rejectEmpty (s\<lparr>doc := (doc s)\<lparr>rating := delete_field ''_id'' res\<rparr>\<rparr>))"

text \<open>\<^verbatim>\<open>addRating\<close>: push the id unless the array includes it; return \<^verbatim>\<open>this\<close>.\<close>

definition addRating :: "session \<Rightarrow> oid \<Rightarrow> session" where
  "addRating s ratingId =
     (if \<not> (ratingId \<in> set (ratings (doc s)))
      then s\<lparr>doc := (doc s)\<lparr>ratings := ratings (doc s) @ [ratingId]\<rparr>\<rparr>
      else s)"

section \<open>Example data\<close>

text \<open>A small store and a few inputs, to run the operations on.\<close>

definition exImage :: "string \<Rightarrow> image" where
  "exImage n =
     \<lparr>image_id = ''img'' @ n, publicId = ''pub'' @ n,
      url = ''https://cdn.example/'' @ n @ ''.jpg'', imgType = ''recipe''\<rparr>"

definition exRecipe :: "oid \<Rightarrow> bool option \<Rightarrow> string option \<Rightarrow> 'b list \<Rightarrow> 'b recipe" where
  "exRecipe i st c bs =
     \<lparr>recipe_id = i, name = Some ''Dish'', description = Some ''Tasty'', status = st,
      category = c, createdBy = Some ''user1'', servings = Some 4, time = Some 30,
      tags = [''easy''], banners = bs,
      ingredients = [\<lparr>quantity = Some ''1 tsp'', ingredient = Some ''salt''\<rparr>],
      methods = [''Mix'', ''Cook''], rating = defaultRating, ratings = [], score = None,
      createdAt = 10, updatedAt = 20\<rparr>"

definition exWorld :: world where
  "exWorld =
     \<lparr>recipeColl =
        [exRecipe ''r1'' (Some True) (Some ''soup'') [''img1'', ''img2''],
         exRecipe ''r2'' (Some False) (Some ''cake'') [''img3''],
         exRecipe ''r3'' (Some True) (Some ''soup'') [''img4''],
         exRecipe ''r4'' (Some True) None [''img5''],
         exRecipe ''r5'' (Some True) (Some ''salad'') [],
         exRecipe ''r6'' None (Some ''stew'') [''img1'']],
      ratingColl =
        [\<lparr>recipeId = ''r1'', rateValue = 3\<rparr>,
         \<lparr>recipeId = ''r2'', rateValue = 1\<rparr>,
         \<lparr>recipeId = ''r1'', rateValue = 5\<rparr>],
      imageColl = map exImage [''1'', ''2'', ''3'', ''4'', ''5''],
      now = 1000\<rparr>"

definition exInput :: "oid list \<Rightarrow> recipe_input" where
  "exInput bs =
     \<lparr>in_name = Some ''Pho'', in_category = Some '' Soup '', in_description = Some ''Broth'',
      in_servings = Some 2, in_time = Some 45, in_createdBy = Some ''user1'',
      in_banners = Some bs,
      in_ingredients = Some [\<lparr>quantity = Some ''2 l'', ingredient = Some ''water''\<rparr>],
      in_methods = Some [''Boil''], in_rating = None, in_ratings = None, in_tags = None\<rparr>"

definition exUser :: user where
  "exUser = \<lparr>user_id = ''user1'', savedRecipes = [''r3'']\<rparr>"

text \<open>The first recipe as a query returns it, with a text-search score attached.\<close>

definition exPopulated :: "image recipe" where
  "exPopulated =
     (exRecipe ''r1'' (Some True) (Some ''soup'') [exImage ''1'', exImage ''2''])\<lparr>score := Some 7\<rparr>"

text \<open>Two documents in hand: one with ratings in the store (3 and 5), one with none.\<close>

definition exSession :: session where
  "exSession = \<lparr>db = exWorld, doc = exRecipe ''r1'' (Some True) (Some ''soup'') [''img1'', ''img2'']\<rparr>"

definition exUnrated :: session where
  "exUnrated = \<lparr>db = exWorld, doc = exRecipe ''r3'' (Some True) (Some ''soup'') [''img4'']\<rparr>"

section \<open>Properties of the category rollup\<close>

lemma groupAdd_keys:
  "map fst (groupAdd k img gs) = (if k \<in> set (map fst gs) then map fst gs else map fst gs @ [k])"
  by (induction gs) force+

lemma groupAdd_distinct:
  "distinct (map fst gs) \<Longrightarrow> distinct (map fst (groupAdd k img gs))"
  by (simp add: groupAdd_keys)

lemma groupAdd_lookup:
  "map_of (groupAdd k img gs) k' =
     (if k' = k then Some (case map_of gs k of None \<Rightarrow> 1 | Some (n, i) \<Rightarrow> n + 1, img)
      else map_of gs k')"
  by (induction gs) auto

lemma groupStage_snoc:
  "groupStage (rs @ [r]) = groupAdd (category r) (arrayElemAt (banners r) 0) (groupStage rs)"
  by (simp add: groupStage_def)

lemma groupStage_keys_set: "set (map fst (groupStage rs)) = category ` set rs"
proof (induction rs rule: rev_induct)
  case Nil
  show ?case by (simp add: groupStage_def)
next
  case (snoc r rs)
  then show ?case by (auto simp: groupStage_snoc groupAdd_keys)
qed

lemma groupStage_distinct: "distinct (map fst (groupStage rs))"
proof (induction rs rule: rev_induct)
  case Nil
  show ?case by (simp add: groupStage_def)
next
  case (snoc r rs)
  then show ?case by (simp only: groupStage_snoc groupAdd_distinct)
qed

lemma groupStage_lookup:
  "map_of (groupStage rs) k =
     (if k \<in> category ` set rs
      then Some (length (filter (\<lambda>r. category r = k) rs),
                 arrayElemAt (banners (last (filter (\<lambda>r. category r = k) rs))) 0)
      else None)"
proof (induction rs rule: rev_induct)
  case Nil
  show ?case by (simp add: groupStage_def)
next
  case (snoc r rs)
  then show ?case
    by (auto simp: groupStage_snoc groupAdd_lookup filter_empty_conv image_iff) metis+
qed

lemma categoryEntry_id: "get_field (categoryEntry g) ''_id'' = Some (or_null JStr (fst g))"
  by (cases g) (simp add: categoryEntry_def get_field_def)

lemma categoryEntry_fields: "map fst (categoryEntry g) = [''_id'', ''total'', ''image_url'']"
  by (cases g) (simp add: categoryEntry_def)

lemma inj_or_null_JStr: "inj (\<lambda>k. Some (or_null JStr k))"
  by (auto simp: inj_on_def or_null_def split: option.splits)

lemma getCategories_ids:
  "map (\<lambda>e. get_field e ''_id'') (getCategories limit w) =
   map (\<lambda>k. Some (or_null JStr k)) (map fst (groupStage (filter matchStage (recipeColl w))))"
  by (simp add: getCategories_def categoryEntry_id comp_def)

lemma matched_categories:
  "category ` set (filter matchStage rs) =
   Some ` set (List.map_filter category (filter (\<lambda>r. status r = Some True) rs))"
  by (auto simp: matchStage_def map_filter_def image_iff) force+

lemma matched_members:
  "filter (\<lambda>r. category r = Some c) (filter matchStage (recipeColl w)) = publicMembers w c"
  by (auto simp: publicMembers_def matchStage_def intro: filter_cong)

text \<open>
  What the rollup does get right: every entry has the three fields of a group, and
  every category of a public recipe has its entry, with the number of its public
  members and the first banner reference of the last of them.
\<close>

lemma getCategories_fields:
  "e \<in> set (getCategories limit w) \<Longrightarrow> map fst e = [''_id'', ''total'', ''image_url'']"
  by (auto simp: getCategories_def categoryEntry_fields)

lemma getCategories_entry:
  assumes "c \<in> publicCategories w"
  shows "[(''_id'', JStr c),
          (''total'', JNum (of_nat (length (publicMembers w c)))),
          (''image_url'', or_null JId (arrayElemAt (banners (last (publicMembers w c))) 0))]
         \<in> set (getCategories limit w)"
proof -
  let ?rs = "filter matchStage (recipeColl w)"
  have "Some c \<in> category ` set ?rs"
    using assms unfolding matched_categories publicCategories_def by (rule imageI)
  then have "map_of (groupStage ?rs) (Some c) =
      Some (length (publicMembers w c), arrayElemAt (banners (last (publicMembers w c))) 0)"
    by (simp only: groupStage_lookup matched_members if_True)
  then have "(Some c, length (publicMembers w c),
      arrayElemAt (banners (last (publicMembers w c))) 0) \<in> set (groupStage ?rs)"
    by (rule map_of_SomeD)
  then have "categoryEntry (Some c, length (publicMembers w c),
      arrayElemAt (banners (last (publicMembers w c))) 0) \<in> set (getCategories limit w)"
    unfolding getCategories_def by (simp only: set_map) (rule imageI)
  then show ?thesis
    by (simp add: categoryEntry_def or_null_def)
qed

lemmas ex_defs = exWorld_def exRecipe_def exImage_def defaultRating_def

lemma ex_publicCategories: "publicCategories exWorld = {''soup'', ''salad''}"
  by (auto simp add: publicCategories_def map_filter_def ex_defs)

text \<open>
  C1. The claim: \<^verbatim>\<open>getCategories\<close> returns one entry per category of the public
  recipes, each of the shape \<^verbatim>\<open>{name, total, image_url}\<close>. On the example store the
  rollup returns the two public categories with their counts, but under the key
  \<^verbatim>\<open>_id\<close> of the \<^verbatim>\<open>$group\<close> stage: no entry has a field \<^verbatim>\<open>name\<close>, which
  \<^verbatim>\<open>ICategory\<close> declares, and \<^verbatim>\<open>image_url\<close> is the raw reference of the banner
  (or null), not a url.
\<close>

theorem getCategories_has_no_name:
  "getCategories None exWorld =
     [[(''_id'', JStr ''soup''), (''total'', JNum 2), (''image_url'', JId ''img4'')],
      [(''_id'', JStr ''salad''), (''total'', JNum 1), (''image_url'', JNull)]]
   \<and> list_all (\<lambda>e. \<not> has_field e ''name'') (getCategories None exWorld)"
  by (simp add: getCategories_def groupStage_def matchStage_def categoryEntry_def
      arrayElemAt_def or_null_def has_field_def ex_defs)

text \<open>
  C7. For every value of \<^verbatim>\<open>limit\<close>, absent or not, \<^verbatim>\<open>getCategories\<close> returns
  what it returns without one, and that is complete: the entries carry pairwise
  different categories, exactly those of the public recipes, one entry each.
\<close>

theorem getCategories_limit_unused:
  "getCategories limit w = getCategories None w
   \<and> distinct (map (\<lambda>e. get_field e ''_id'') (getCategories limit w))
   \<and> set (map (\<lambda>e. get_field e ''_id'') (getCategories limit w))
       = (\<lambda>c. Some (JStr c)) ` publicCategories w
   \<and> length (getCategories limit w) = card (publicCategories w)"
proof -
  let ?gs = "groupStage (filter matchStage (recipeColl w))"
  have d: "distinct (map (\<lambda>e. get_field e ''_id'') (getCategories limit w))"
    unfolding getCategories_ids
    by (rule iffD2 [OF distinct_map])
      (simp add: groupStage_distinct inj_on_subset [OF inj_or_null_JStr])
  have k: "set (map fst ?gs) = Some ` publicCategories w"
    by (simp only: groupStage_keys_set matched_categories publicCategories_def)
  have s: "set (map (\<lambda>e. get_field e ''_id'') (getCategories limit w))
       = (\<lambda>c. Some (JStr c)) ` publicCategories w"
    unfolding getCategories_ids set_map [of _ "map fst ?gs"] k
    by (simp add: image_image or_null_def)
  have "length (getCategories limit w) = card (set (map fst ?gs))"
    using distinct_card [OF groupStage_distinct, of "filter matchStage (recipeColl w)"]
    by (simp add: getCategories_def)
  also have "\<dots> = card (publicCategories w)"
    unfolding k by (simp add: card_image)
  finally have l: "length (getCategories limit w) = card (publicCategories w)" .
  show ?thesis using d s l by (simp add: getCategories_def)
qed

text \<open>With a limit of 1, the example store still yields both of its public categories.\<close>

theorem getCategories_limit_unused_witness:
  "getCategories (Some 1) exWorld = getCategories None exWorld
   \<and> length (getCategories (Some 1) exWorld) = 2"
proof -
  have c: "card (publicCategories exWorld) = 2"
    by (simp add: ex_publicCategories)
  from getCategories_limit_unused [of "Some 1" exWorld]
  have "getCategories (Some 1) exWorld = getCategories None exWorld"
    and "length (getCategories (Some 1) exWorld) = card (publicCategories exWorld)"
    by blast+
  with c show ?thesis by (simp only: simp_thms)
qed

section \<open>Properties of the projections\<close>

lemma has_field_delete:
  "has_field (delete_field k ob) k' = (has_field ob k' \<and> k' \<noteq> k)"
proof -
  have "fst ` set (AList.delete k ob) = set (removeAll k (map fst ob))"
    by (simp only: set_map [symmetric] delete_keys)
  then show ?thesis
    by (auto simp: has_field_def delete_field_def)
qed

lemma has_field_fold_delete:
  "has_field (fold delete_field ks ob) k = (has_field ob k \<and> k \<notin> set ks)"
  by (induction ks arbitrary: ob) (auto simp: has_field_delete)

lemma get_field_delete:
  "get_field (delete_field k ob) k' = (if k' = k then None else get_field ob k')"
  by (simp add: get_field_def delete_field_def delete_conv')

lemma get_field_set:
  "get_field (set_field k v ob) k' = (if k' = k then Some v else get_field ob k')"
  by (simp add: get_field_def set_field_def update_conv')

lemma toThumbnailFor_has_field:
  "has_field (toThumbnailFor imgJSON r u) k \<Longrightarrow> k \<notin> set thumbnailDeletes"
  by (simp add: toThumbnailFor_def Let_def has_field_fold_delete)

lemma toSearchResultFor_has_field:
  "has_field (toSearchResultFor imgJSON r u) k \<Longrightarrow> k \<notin> set searchResultDeletes"
  by (simp add: toSearchResultFor_def Let_def has_field_fold_delete)

lemmas view_defs = toThumbnailFor_def toSearchResultFor_def toJSONFor_def toJSON_def
  toObject_def toEditObj_def toEditObject_def docFields_def virtuals_def transform_def
  image_url_def urlOf_def bannerJSON_def asDocument_def withBanners_def opt_field_def
  ingredientJSON_def isCreatedBy_def didSaveRecipe_def
  thumbnailDeletes_def searchResultDeletes_def delete_field_def set_field_def
  has_field_def get_field_def AList.delete_eq

text \<open>
  C4. For every recipe and every user, given or not, the thumbnail has none of the
  fields banners, ingredients, methods, servings, description, category, tags, time,
  status and createdAt, and the search result has none of them and no score either.
\<close>

theorem projections_strip_fields:
  "list_all (\<lambda>k. \<not> has_field (toThumbnailFor imgJSON r u) k)
     [''banners'', ''ingredients'', ''methods'', ''servings'', ''description'', ''category'',
      ''tags'', ''time'', ''status'', ''createdAt'']
   \<and> list_all (\<lambda>k. \<not> has_field (toSearchResultFor imgJSON r u) k)
     [''banners'', ''ingredients'', ''methods'', ''servings'', ''description'', ''category'',
      ''tags'', ''time'', ''status'', ''createdAt'', ''score'']"
  by (auto simp: thumbnailDeletes_def searchResultDeletes_def
      dest!: toThumbnailFor_has_field toSearchResultFor_has_field)

text \<open>
  The example recipe serialises with banners and a score; its thumbnail for a user
  keeps the name, the rating, the score, the derived fields and the two flags; its
  anonymous search result has lost the score as well.
\<close>

theorem projections_strip_fields_witness:
  "has_field (toJSON (\<lambda>i. JStr (url i)) (asDocument exPopulated)) ''banners''
   \<and> has_field (toJSON (\<lambda>i. JStr (url i)) (asDocument exPopulated)) ''score''
   \<and> \<not> has_field (toThumbnailFor (\<lambda>i. JStr (url i)) (asDocument exPopulated) (Some exUser))
         ''banners''
   \<and> \<not> has_field (toSearchResultFor (\<lambda>i. JStr (url i)) (asDocument exPopulated) None) ''score''
   \<and> set (map fst (toThumbnailFor (\<lambda>i. JStr (url i)) (asDocument exPopulated) (Some exUser)))
       = {''name'', ''rating'', ''score'', ''image_url'', ''id'', ''savedByUser'', ''createdByUser''}
   \<and> set (map fst (toSearchResultFor (\<lambda>i. JStr (url i)) (asDocument exPopulated) None))
       = {''name'', ''rating'', ''image_url'', ''id''}"
proof -
  have "\<not> has_field (toThumbnailFor (\<lambda>i. JStr (url i)) (asDocument exPopulated) (Some exUser))
      ''banners''"
    using projections_strip_fields [of "\<lambda>i. JStr (url i)" "asDocument exPopulated" "Some exUser"]
    by simp
  moreover
  have "\<not> has_field (toSearchResultFor (\<lambda>i. JStr (url i)) (asDocument exPopulated) None) ''score''"
    using projections_strip_fields [of "\<lambda>i. JStr (url i)" "asDocument exPopulated" None]
    by simp
  moreover have "has_field (toJSON (\<lambda>i. JStr (url i)) (asDocument exPopulated)) ''banners''"
    "has_field (toJSON (\<lambda>i. JStr (url i)) (asDocument exPopulated)) ''score''"
    "set (map fst (toThumbnailFor (\<lambda>i. JStr (url i)) (asDocument exPopulated) (Some exUser)))
       = {''name'', ''rating'', ''score'', ''image_url'', ''id'', ''savedByUser'', ''createdByUser''}"
    "set (map fst (toSearchResultFor (\<lambda>i. JStr (url i)) (asDocument exPopulated) None))
       = {''name'', ''rating'', ''image_url'', ''id''}"
    by (auto simp add: view_defs ex_defs exPopulated_def exUser_def)
  ultimately show ?thesis by (intro conjI)
qed

text \<open>
  C8. For every recipe, the edit object has neither \<^verbatim>\<open>createdBy\<close> nor
  \<^verbatim>\<open>createdAt\<close>, and its \<^verbatim>\<open>banners\<close> are the recipe's banner images, each as
  its edit representation, the pair of its id and its url.
\<close>

theorem toEditObj_fields:
  "\<not> has_field (toEditObj imgJSON r) ''createdBy''
   \<and> \<not> has_field (toEditObj imgJSON r) ''createdAt''
   \<and> get_field (toEditObj imgJSON r) ''banners''
       = Some (JArr (map (\<lambda>i. JObj [(''id'', JStr (image_id i)), (''url'', JStr (url i))])
                      (banners r)))"
  by (simp add: toEditObj_def Let_def has_field_delete get_field_delete get_field_set
      toEditObject_def)

text \<open>
  The plain object of the example recipe has both fields; its edit object has lost
  them and lists the two banners by id and url.
\<close>

theorem toEditObj_fields_witness:
  "has_field (toObject (\<lambda>i. JStr (url i)) (asDocument exPopulated)) ''createdBy''
   \<and> has_field (toObject (\<lambda>i. JStr (url i)) (asDocument exPopulated)) ''createdAt''
   \<and> \<not> has_field (toEditObj (\<lambda>i. JStr (url i)) exPopulated) ''createdBy''
   \<and> \<not> has_field (toEditObj (\<lambda>i. JStr (url i)) exPopulated) ''createdAt''
   \<and> get_field (toEditObj (\<lambda>i. JStr (url i)) exPopulated) ''banners''
       = Some (JArr [JObj [(''id'', JStr ''img1''), (''url'', JStr ''https://cdn.example/1.jpg'')],
                     JObj [(''id'', JStr ''img2''), (''url'', JStr ''https://cdn.example/2.jpg'')]])"
proof -
  have "has_field (toObject (\<lambda>i. JStr (url i)) (asDocument exPopulated)) ''createdBy''"
    "has_field (toObject (\<lambda>i. JStr (url i)) (asDocument exPopulated)) ''createdAt''"
    by (simp_all add: view_defs ex_defs exPopulated_def)
  then show ?thesis
    using toEditObj_fields [of "\<lambda>i. JStr (url i)" exPopulated]
    by (simp add: ex_defs exPopulated_def)
qed

section \<open>Properties of the rating methods\<close>

lemma count_list_member: "x \<in> set xs \<Longrightarrow> Suc 0 \<le> count_list xs x"
  by (induction xs) auto


lemma save_keeps_rating:
  "save rejectEmpty s = (None, s') \<Longrightarrow> rating (doc s') = rating (doc s)"
  by (auto simp: save_def Let_def split: list.splits if_splits)


lemma updateRating_sets_avg:
  assumes "updateRating rejectEmpty s = (None, s')"
  shows "get_field (rating (doc s')) ''avg'' \<noteq> None"
proof (cases "ratingRollup (ratingColl (db s)) (recipe_id (doc s))")
  case Nil
  with assms show ?thesis by (simp add: updateRating_def)
next
  case (Cons res rest)
  with assms have "rating (doc s') = delete_field ''_id'' res"
    by (auto simp: updateRating_def dest: save_keeps_rating)
  moreover from Cons have "get_field (delete_field ''_id'' res) ''avg'' \<noteq> None"
    by (auto simp: ratingRollup_def Let_def get_field_def delete_field_def split: if_splits)
  ultimately show ?thesis by simp
qed


text \<open>
  C5. \<^verbatim>\<open>addRating\<close> is an idempotent set insert that does not persist: a second
  call with the same id changes nothing, the set of references is the old one with
  the id added, the id occurs once unless it occurred more often before (so a list
  without repetitions stays one), and the store is the one before the call.
\<close>

theorem addRating_idempotent:
  "addRating (addRating s i) i = addRating s i
   \<and> set (ratings (doc (addRating s i))) = insert i (set (ratings (doc s)))
   \<and> count_list (ratings (doc (addRating s i))) i = max 1 (count_list (ratings (doc s)) i)
   \<and> (distinct (ratings (doc s)) \<longrightarrow> distinct (ratings (doc (addRating s i))))
   \<and> db (addRating s i) = db s"
  by (auto simp: addRating_def max_def count_list_member dest: count_notin)

text \<open>
  On the first example document, which has no rating reference yet, two calls leave
  exactly one, and the stored recipes are untouched.
\<close>

theorem addRating_idempotent_witness:
  "distinct (ratings (doc exSession))
   \<and> ratings (doc (addRating (addRating exSession ''t1'') ''t1'')) = [''t1'']
   \<and> recipeColl (db (addRating (addRating exSession ''t1'') ''t1'')) = recipeColl exWorld"
proof -
  have "ratings (doc (addRating exSession ''t1'')) = [''t1'']"
    "db (addRating exSession ''t1'') = exWorld"
    "distinct (ratings (doc exSession))"
    by (simp_all add: addRating_def exSession_def ex_defs)
  then show ?thesis
    using addRating_idempotent [of exSession "''t1''"] by simp
qed



text \<open>
  C9. For every recipe with no matching rating record, \<^verbatim>\<open>updateRating\<close> rejects
  with the TypeError of \<^verbatim>\<open>delete results[0]._id\<close>, before anything is assigned or
  saved: the document and the store are as before, with no reset of the summary.
\<close>

theorem updateRating_no_ratings:
  assumes "filter (\<lambda>x. recipeId x = recipe_id (doc s)) (ratingColl (db s)) = []"
  shows "updateRating rejectEmpty s = (Some TypeError, s)"
  using assms by (simp add: updateRating_def ratingRollup_def)

text \<open>The second example document has no rating in the store.\<close>

theorem updateRating_no_ratings_witness:
  "filter (\<lambda>x. recipeId x = recipe_id (doc exUnrated)) (ratingColl (db exUnrated)) = []
   \<and> updateRating False exUnrated = (Some TypeError, exUnrated)
   \<and> rating (doc exUnrated) = defaultRating"
proof -
  have h: "filter (\<lambda>x. recipeId x = recipe_id (doc exUnrated)) (ratingColl (db exUnrated)) = []"
    by (simp add: exUnrated_def ex_defs)
  from updateRating_no_ratings [OF h, of False] h show ?thesis
    by (simp add: exUnrated_def exRecipe_def)
qed

section \<open>Properties of create\<close>

lemma ingredientsPath_ok_aux:
  "list_all (\<lambda>g. (\<exists>q. quantity g = Some q \<and> trim q \<noteq> [])
                \<and> (\<exists>x. ingredient g = Some x \<and> trim x \<noteq> [])) gs
   \<Longrightarrow> concat (map (\<lambda>(i, g). ingredientPath i g) (enumerate k (map trimIngredient gs))) = []"
  by (induction gs arbitrary: k) (auto simp: ingredientPath_def stringPath_def trimIngredient_def)

lemma ingredientsPath_ok:
  "list_all (\<lambda>g. (\<exists>q. quantity g = Some q \<and> trim q \<noteq> [])
                \<and> (\<exists>x. ingredient g = Some x \<and> trim x \<noteq> [])) gs
   \<Longrightarrow> ingredientsPath (map trimIngredient gs) = []"
  unfolding ingredientsPath_def by (rule ingredientsPath_ok_aux)

lemma findImage_exists:
  "ref \<in> image_id ` set imgs \<Longrightarrow> \<exists>i. findImage imgs ref = Some i \<and> image_id i = ref"
  unfolding findImage_def by (induction imgs) auto

lemma populate_first_banner:
  assumes "checkImagesExist imgs (b # bs)"
  shows "\<exists>i is. findImage imgs b = Some i
      \<and> List.map_filter (findImage imgs) (b # bs) = i # is"
proof -
  from assms have "b \<in> image_id ` set imgs" by (simp add: checkImagesExist_def)
  from findImage_exists [OF this] obtain i where "findImage imgs b = Some i" by blast
  then show ?thesis by (simp add: map_filter_simps)
qed

text \<open>
  Validation accepts every input with a name, a category, servings from 1 to 16, a
  time from 1 to 200 if any, an owner, complete ingredients, a method and at least
  one banner, all banners existing. Nothing bounds the number of banners from above.
\<close>

lemma create_accepts:
  assumes "in_name inp = Some n" and "trim n \<noteq> []"
    and "in_category inp = Some c" and "trim (toLowerCase c) \<noteq> []"
    and "in_servings inp = Some sv" and "1 \<le> sv" and "sv \<le> 16"
    and "case in_time inp of None \<Rightarrow> True | Some t \<Rightarrow> 1 \<le> t \<and> t \<le> 200"
    and "in_createdBy inp = Some u"
    and "in_banners inp = Some bs" and "bs \<noteq> []" and "checkImagesExist (imageColl w) bs"
    and "list_all (\<lambda>g. (\<exists>q. quantity g = Some q \<and> trim q \<noteq> [])
                      \<and> (\<exists>x. ingredient g = Some x \<and> trim x \<noteq> []))
           (or_empty (in_ingredients inp))"
    and "in_methods inp = Some ms" and "ms \<noteq> []"
  shows "validate rejectEmpty (imageColl w) (newRecipe t newId inp) = []"
proof -
  have "ingredientsPath (ingredients (newRecipe t newId inp)) = []"
    using assms(13) by (simp add: newRecipe_def ingredientsPath_ok)
  moreover have "numberPath ''time'' False 1 200 (time (newRecipe t newId inp)) = []"
    using assms(8) by (auto simp: newRecipe_def numberPath_def split: option.splits)
  moreover have "numberPath ''servings'' True 1 16 (servings (newRecipe t newId inp)) = []"
    using assms(5-7) by (auto simp: newRecipe_def numberPath_def)
  moreover have "arrayPath rejectEmpty ''banners'' True (Some 1) (Some 4)
       (Some (checkImagesExist (imageColl w), ''Image not exists''))
       (banners (newRecipe t newId inp)) = []"
    using assms(10-12) by (simp add: newRecipe_def arrayPath_def or_empty_def)
  moreover have "arrayPath rejectEmpty ''methods'' True None None None
       (methods (newRecipe t newId inp)) = []"
    using assms(14,15) by (simp add: newRecipe_def arrayPath_def or_empty_def)
  moreover have "stringPath ''name'' True (name (newRecipe t newId inp)) = []"
    "stringPath ''category'' True (category (newRecipe t newId inp)) = []"
    "stringPath ''description'' False (description (newRecipe t newId inp)) = []"
    "idPath ''createdBy'' True (createdBy (newRecipe t newId inp)) = []"
    using assms(1-4,9) by (simp_all add: newRecipe_def stringPath_def idPath_def)
  ultimately show ?thesis
    by (simp only: validate_def append_Nil)
qed

lemma find_fresh_snoc:
  "newId \<notin> recipe_id ` set rs \<Longrightarrow> recipe_id d = newId
   \<Longrightarrow> find (\<lambda>r. recipe_id r = newId) (rs @ [d]) = Some d"
  by (induction rs) auto

lemma create_result:
  "create rejectEmpty w newId inp = (Inr d, w') \<Longrightarrow>
     d = newRecipe (now w) newId inp \<and> w' = w\<lparr>recipeColl := recipeColl w @ [d]\<rparr>"
  by (auto simp: create_def Let_def split: list.splits if_splits)

text \<open>
  Trimming at work: the strings of the example input, and a string of nothing but a
  no-break space and an ideographic space.
\<close>

lemma ex_trims:
  "trim ''Pho'' = ''Pho''" "trim '' soup '' = ''soup''" "trim ''Broth'' = ''Broth''"
  "trim ''2 l'' = ''2 l''" "trim ''water'' = ''water''"
  by code_simp+

lemma ex_trim_unicode: "trim [CHR 0xC2, CHR 0xA0, CHR 0xE3, CHR 0x80, CHR 0x80] = []"
  by code_simp

lemmas create_defs = create_def newRecipe_def validate_def stringPath_def numberPath_def
  idPath_def arrayPath_def checkImagesExist_def or_empty_def ingredientsPath_def
  ingredientPath_def trimIngredient_def ex_trims toLowerCase_def toLower_def Let_def

lemma ex_create_two:
  "create rejectEmpty exWorld ''r9'' (exInput [''img2'', ''img1'']) =
     (Inr (newRecipe 1000 ''r9'' (exInput [''img2'', ''img1''])),
      exWorld\<lparr>recipeColl := recipeColl exWorld @
         [newRecipe 1000 ''r9'' (exInput [''img2'', ''img1''])]\<rparr>)"
  by (simp add: create_defs ex_defs exInput_def)

text \<open>
  What does reject an input: a banner that is no stored image; and, where the
  mapper's \<^verbatim>\<open>required\<close> fails on the empty array, no banner at all. Where it does
  not, a recipe without banners is stored.
\<close>

lemma ex_create_dangling:
  "create rejectEmpty exWorld ''r9'' (exInput [''img1'', ''img7'']) =
     (Inl (ValidationError [(''banners'', UserDefined ''Image not exists'')]), exWorld)"
  by (simp add: create_defs ex_defs exInput_def)

lemma ex_create_blank_name:
  "create rejectEmpty exWorld ''r9''
     ((exInput [''img1''])\<lparr>in_name := Some [CHR 0xC2, CHR 0xA0, CHR 0xE3, CHR 0x80, CHR 0x80]\<rparr>) =
     (Inl (ValidationError [(''name'', IsRequired)]), exWorld)"
  by (simp add: create_defs ex_defs exInput_def ex_trim_unicode)

lemma ex_create_no_banner_rejected:
  "create True exWorld ''r9'' (exInput []) =
     (Inl (ValidationError [(''banners'', IsRequired)]), exWorld)"
  by (simp add: create_defs ex_defs exInput_def)

lemma ex_create_no_banner_stored:
  "create False exWorld ''r9'' (exInput []) =
     (Inr (newRecipe 1000 ''r9'' (exInput [])),
      exWorld\<lparr>recipeColl := recipeColl exWorld @ [newRecipe 1000 ''r9'' (exInput [])]\<rparr>)"
  by (simp add: create_defs ex_defs exInput_def)

text \<open>
  C6. The claim: for every valid input whose one to four banner references all
  resolve to stored images, \<^verbatim>\<open>create\<close> succeeds and the \<^verbatim>\<open>image_url\<close> of the
  resulting recipe is the url of its first banner. The document that \<^verbatim>\<open>create\<close>
  resolves with still has the references as its banners, and on a reference
  \<^verbatim>\<open>this.banners[0].url\<close> is \<^verbatim>\<open>undefined\<close>: on the example store, the input with
  the second and the first image as banners is accepted, and the \<^verbatim>\<open>image_url\<close> of
  the document is not the url of the second image.
\<close>

theorem create_image_url_unpopulated:
  "fst (create False exWorld ''r9'' (exInput [''img2'', ''img1'']))
     = Inr (newRecipe 1000 ''r9'' (exInput [''img2'', ''img1'']))
   \<and> map_option url (findImage (imageColl exWorld) ''img2'') = Some ''https://cdn.example/2.jpg''
   \<and> banners (rawDocument (newRecipe 1000 ''r9'' (exInput [''img2'', ''img1''])))
       = [Ref ''img2'', Ref ''img1'']
   \<and> image_url (rawDocument (newRecipe 1000 ''r9'' (exInput [''img2'', ''img1''])))
       \<noteq> Some ''https://cdn.example/2.jpg''
   \<and> image_url (rawDocument (newRecipe 1000 ''r9'' (exInput [''img2'', ''img1''])))
       = None"
proof -
  have b: "banners (rawDocument (newRecipe 1000 ''r9'' (exInput [''img2'', ''img1''])))
      = [Ref ''img2'', Ref ''img1'']"
    by (simp add: rawDocument_def withBanners_def newRecipe_def exInput_def or_empty_def)
  then have "image_url (rawDocument (newRecipe 1000 ''r9'' (exInput [''img2'', ''img1''])))
      = None"
    by (simp add: image_url_def urlOf_def)
  moreover have "map_option url (findImage (imageColl exWorld) ''img2'')
      = Some ''https://cdn.example/2.jpg''"
    by (simp add: findImage_def ex_defs)
  ultimately show ?thesis using b by (simp add: ex_create_two)
qed

text \<open>
  C6, as amended. For every valid input whose one to four banner references all
  resolve to stored images (and a fresh id), \<^verbatim>\<open>create\<close> succeeds and stores the
  recipe, and once the banners of the stored recipe are populated, as in the document
  that a query returns, its \<^verbatim>\<open>image_url\<close> is the url of the image of its first
  banner; a document without banners has the empty \<^verbatim>\<open>image_url\<close>.
\<close>

theorem create_valid_input:
  assumes name: "in_name inp = Some n" "trim n \<noteq> []"
    and category: "in_category inp = Some c" "trim (toLowerCase c) \<noteq> []"
    and servings: "in_servings inp = Some sv" "1 \<le> sv" "sv \<le> 16"
    and time: "case in_time inp of None \<Rightarrow> True | Some t \<Rightarrow> 1 \<le> t \<and> t \<le> 200"
    and owner: "in_createdBy inp = Some u"
    and banners: "in_banners inp = Some bs" "1 \<le> length bs" "length bs \<le> 4"
      "set bs \<subseteq> image_id ` set (imageColl w)"
    and ingredients:
      "list_all (\<lambda>g. (\<exists>q. quantity g = Some q \<and> trim q \<noteq> [])
                    \<and> (\<exists>x. ingredient g = Some x \<and> trim x \<noteq> []))
         (or_empty (in_ingredients inp))"
    and methods: "in_methods inp = Some ms" "ms \<noteq> []"
    and fresh: "newId \<notin> recipe_id ` set (recipeColl w)"
  shows "(\<exists>d w' r img.
            create rejectEmpty w newId inp = (Inr d, w')
          \<and> d \<in> set (recipeColl w')
          \<and> findById w' newId = Some r
          \<and> findImage (imageColl w) (bs ! 0) = Some img
          \<and> image_url (asDocument r) = Some (url img))
       \<and> (\<forall>r :: banner recipe. banners r = [] \<longrightarrow> image_url r = Some [])"
proof -
  let ?d = "newRecipe (now w) newId inp"
  let ?w' = "w\<lparr>recipeColl := recipeColl w @ [?d]\<rparr>"
  from banners(2) obtain b bs' where bs: "bs = b # bs'" by (cases bs) auto
  have ex: "checkImagesExist (imageColl w) bs"
    using banners(4) by (auto simp: checkImagesExist_def list_all_iff)
  have v: "validate rejectEmpty (imageColl w) ?d = []"
    using name category servings time owner banners(1) _ ex ingredients methods
    by (rule create_accepts) (simp add: bs)
  have c: "create rejectEmpty w newId inp = (Inr ?d, ?w')"
    using v fresh by (simp add: create_def Let_def)
  have m: "?d \<in> set (recipeColl ?w')" by simp
  have "find (\<lambda>r. recipe_id r = newId) (recipeColl ?w') = Some ?d"
    using fresh by (simp add: find_fresh_snoc newRecipe_def)
  then have f: "findById ?w' newId = Some (populate (imageColl w) ?d)"
    by (simp add: findById_def)
  from populate_first_banner [OF ex [unfolded bs]]
  obtain i "is" where i: "findImage (imageColl w) b = Some i"
    and p: "List.map_filter (findImage (imageColl w)) (b # bs') = i # is" by blast
  have "banners (populate (imageColl w) ?d) = i # is"
    using p banners(1) by (simp add: populate_def newRecipe_def or_empty_def bs)
  then have u: "image_url (asDocument (populate (imageColl w) ?d)) = Some (url i)"
    by (simp add: image_url_def urlOf_def asDocument_def withBanners_def)
  have "findImage (imageColl w) (bs ! 0) = Some i" using i by (simp add: bs)
  with c m f u have "\<exists>d w' r img.
            create rejectEmpty w newId inp = (Inr d, w')
          \<and> d \<in> set (recipeColl w')
          \<and> findById w' newId = Some r
          \<and> findImage (imageColl w) (bs ! 0) = Some img
          \<and> image_url (asDocument r) = Some (url img)"
    by blast
  moreover have "\<forall>r :: banner recipe. banners r = [] \<longrightarrow> image_url r = Some []"
    by (simp add: image_url_def)
  ultimately show ?thesis by blast
qed

text \<open>
  The example input with the second and the first image as banners is stored, and
  the \<^verbatim>\<open>image_url\<close> of the recipe, as a query returns it, is the url of the second
  image.
\<close>

theorem create_valid_input_witness:
  "\<exists>d w' r. create False exWorld ''r9'' (exInput [''img2'', ''img1'']) = (Inr d, w')
     \<and> findById w' ''r9'' = Some r
     \<and> image_url (asDocument r) = Some ''https://cdn.example/2.jpg''"
proof -
  have h: "(\<exists>d w' r img.
            create False exWorld ''r9'' (exInput [''img2'', ''img1'']) = (Inr d, w')
          \<and> d \<in> set (recipeColl w')
          \<and> findById w' ''r9'' = Some r
          \<and> findImage (imageColl exWorld) ([''img2'', ''img1''] ! 0) = Some img
          \<and> image_url (asDocument r) = Some (url img))
       \<and> (\<forall>r :: banner recipe. banners r = [] \<longrightarrow> image_url r = Some [])"
    by (rule create_valid_input [where n = "''Pho''" and c = "'' Soup ''" and sv = 2
          and u = "''user1''" and ms = "[''Boil'']"])
      (simp_all add: ex_defs exInput_def or_empty_def ex_trims toLowerCase_def toLower_def)
  have "findImage (imageColl exWorld) ([''img2'', ''img1''] ! 0) = Some (exImage ''2'')"
    by (simp add: findImage_def ex_defs)
  with h show ?thesis by (auto simp: exImage_def)
qed

text \<open>
  C2. The claim: an input with no banner or with five fails with a ValidationError
  and is not stored. The schema gives the banners \<^verbatim>\<open>minlength: 1\<close> and
  \<^verbatim>\<open>maxlength: 4\<close>, which an array path does not check: the example input with five
  existing banners is accepted and stored with all five, whatever the mapper's
  \<^verbatim>\<open>required\<close> does with an empty array.
\<close>

theorem create_five_banners:
  "create rejectEmpty exWorld ''r9'' (exInput [''img1'', ''img2'', ''img3'', ''img4'', ''img5'']) =
     (Inr (newRecipe 1000 ''r9'' (exInput [''img1'', ''img2'', ''img3'', ''img4'', ''img5''])),
      exWorld\<lparr>recipeColl := recipeColl exWorld @
         [newRecipe 1000 ''r9'' (exInput [''img1'', ''img2'', ''img3'', ''img4'', ''img5''])]\<rparr>)
   \<and> length (banners (newRecipe 1000 ''r9''
         (exInput [''img1'', ''img2'', ''img3'', ''img4'', ''img5'']))) = 5"
  by (simp add: create_defs ex_defs exInput_def)

text \<open>
  C10. The claim: every newly created recipe on which \<^verbatim>\<open>updateRating\<close> has never
  been called has the schema default \<^verbatim>\<open>{avgRating: 0, total: 0}\<close> for its rating,
  and so no \<^verbatim>\<open>rating.avg\<close>. The default is for an input without a rating: the
  example input with the rating \<^verbatim>\<open>{avg: 3, total: 1}\<close> is accepted, and the recipe
  created from it has this rating, with its \<^verbatim>\<open>avg\<close>.
\<close>

theorem create_rating_supplied:
  "fst (create False exWorld ''r9''
          ((exInput [''img1''])\<lparr>in_rating := Some [(''avg'', JNum 3), (''total'', JNum 1)]\<rparr>))
     = Inr (newRecipe 1000 ''r9''
          ((exInput [''img1''])\<lparr>in_rating := Some [(''avg'', JNum 3), (''total'', JNum 1)]\<rparr>))
   \<and> rating (newRecipe 1000 ''r9''
          ((exInput [''img1''])\<lparr>in_rating := Some [(''avg'', JNum 3), (''total'', JNum 1)]\<rparr>))
     = [(''avg'', JNum 3), (''total'', JNum 1)]
   \<and> get_field (rating (newRecipe 1000 ''r9''
          ((exInput [''img1''])\<lparr>in_rating := Some [(''avg'', JNum 3), (''total'', JNum 1)]\<rparr>)))
        ''avg''
     = Some (JNum 3)"
  by (simp add: create_defs ex_defs exInput_def get_field_def)

text \<open>
  C10, as amended. For every newly created recipe whose input gives no rating, the
  rating summary is the schema default \<^verbatim>\<open>{avgRating: 0, total: 0}\<close>, not
  \<^verbatim>\<open>{avg: 0, total: 0}\<close>: the stored recipe has no \<^verbatim>\<open>rating.avg\<close>. An
  \<^verbatim>\<open>updateRating\<close> that resolves leaves a summary that has one.
\<close>

theorem create_rating_default:
  assumes "in_rating inp = None" and "create rejectEmpty w newId inp = (Inr d, w')"
  shows "rating d = [(''avgRating'', JNum 0), (''total'', JNum 0)]
       \<and> rating d \<noteq> [(''avg'', JNum 0), (''total'', JNum 0)]
       \<and> get_field (rating d) ''avg'' = None
       \<and> d \<in> set (recipeColl w')
       \<and> (\<forall>s s'. updateRating rejectEmpty s = (None, s')
              \<longrightarrow> get_field (rating (doc s')) ''avg'' \<noteq> None)"
proof -
  from create_result [OF assms(2)]
  have d: "d = newRecipe (now w) newId inp" and w': "w' = w\<lparr>recipeColl := recipeColl w @ [d]\<rparr>"
    by simp_all
  have r: "rating d = [(''avgRating'', JNum 0), (''total'', JNum 0)]"
    using assms(1) by (simp add: d newRecipe_def defaultRating_def)
  have n: "rating d \<noteq> [(''avg'', JNum 0), (''total'', JNum 0)]"
    and g: "get_field (rating d) ''avg'' = None"
    by (simp_all add: r get_field_def)
  have m: "d \<in> set (recipeColl w')" by (simp add: w')
  have u: "\<forall>s s'. updateRating rejectEmpty s = (None, s') \<longrightarrow>
      get_field (rating (doc s')) ''avg'' \<noteq> None"
    using updateRating_sets_avg by blast
  from r n g m u show ?thesis by (intro conjI)
qed

text \<open>The example input gives no rating; the recipe created from it has the default.\<close>

theorem create_rating_default_witness:
  "in_rating (exInput [''img2'', ''img1'']) = None
   \<and> fst (create False exWorld ''r9'' (exInput [''img2'', ''img1'']))
       = Inr (newRecipe 1000 ''r9'' (exInput [''img2'', ''img1'']))
   \<and> rating (newRecipe 1000 ''r9'' (exInput [''img2'', ''img1'']))
       = [(''avgRating'', JNum 0), (''total'', JNum 0)]
   \<and> get_field (rating (newRecipe 1000 ''r9'' (exInput [''img2'', ''img1'']))) ''avg'' = None"
proof -
  have i: "in_rating (exInput [''img2'', ''img1'']) = None" by (simp add: exInput_def)
  note t = create_rating_default [OF i ex_create_two [of False]]
  from t have "rating (newRecipe 1000 ''r9'' (exInput [''img2'', ''img1'']))
          = [(''avgRating'', JNum 0), (''total'', JNum 0)]"
    by (rule conjunct1)
  moreover from t
  have "get_field (rating (newRecipe 1000 ''r9'' (exInput [''img2'', ''img1'']))) ''avg'' = None"
    by (elim conjE)
  ultimately show ?thesis using i by (simp only: ex_create_two fst_conv simp_thms)
qed

end
